theory Spec2Isabelle
  imports Complex_Main "HOL-Library.Word"
begin

unbundle bit_operations_syntax

section \<open>Price Monitor Pro: the price-acquisition engine of \<^verbatim>\<open>electron-app/src/main.js\<close>\<close>

text \<open>
  Modelling conventions.
  \<^item> JavaScript numbers that hold prices are exact rationals (\<^typ>\<open>rat\<close>); clock readings
    (\<^verbatim>\<open>Date.now()\<close>) and delays are integers in milliseconds.
  \<^item> JavaScript strings are \<^typ>\<open>string\<close>; a character stands for the code unit of the same
    number, so the model speaks about strings whose code units are below 256.
  \<^item> \<^verbatim>\<open>null\<close> and \<^verbatim>\<open>undefined\<close> are \<^term>\<open>None\<close>.
  \<^item> The regular-expression engine, the URL parser and the network are not code of the
    repository: the result of matching each pattern of the source against a page, the host
    name of a URL and the reply to each HTTP request are parameters of the model.
\<close>

subsection \<open>String helpers of the JavaScript runtime\<close>

definition toLowerCase_char :: "char \<Rightarrow> char" where
  "toLowerCase_char c =
     (let n = (of_char c :: nat)
      in if (65 \<le> n \<and> n \<le> 90) \<or> (192 \<le> n \<and> n \<le> 222 \<and> n \<noteq> 215)
         then char_of (n + 32) else c)"

definition toLowerCase :: "string \<Rightarrow> string" where
  "toLowerCase s = map toLowerCase_char s"

definition toUpperCase_char :: "char \<Rightarrow> char" where
  "toUpperCase_char c =
     (let n = (of_char c :: nat)
      in if 97 \<le> n \<and> n \<le> 122 then char_of (n - 32) else c)"

fun startsWith :: "string \<Rightarrow> string \<Rightarrow> bool" where
  "startsWith s [] = True"
| "startsWith [] (c # cs) = False"
| "startsWith (x # xs) (c # cs) = (x = c \<and> startsWith xs cs)"

text \<open>\<^verbatim>\<open>s.includes(sub)\<close>: \<open>sub\<close> occurs in \<open>s\<close> as a contiguous run.\<close>

fun str_includes :: "string \<Rightarrow> string \<Rightarrow> bool" where
  "str_includes [] sub = (sub = [])"
| "str_includes (x # xs) sub = (startsWith (x # xs) sub \<or> str_includes xs sub)"

definition is_space :: "char \<Rightarrow> bool" where
  "is_space c = ((of_char c :: nat) \<in> {9, 10, 11, 12, 13, 32, 160})"

definition trim :: "string \<Rightarrow> string" where
  "trim s = rev (dropWhile is_space (rev (dropWhile is_space s)))"

definition is_digit :: "char \<Rightarrow> bool" where
  "is_digit c = (48 \<le> (of_char c :: nat) \<and> (of_char c :: nat) \<le> 57)"

definition digits_val :: "string \<Rightarrow> nat" where
  "digits_val ds = foldl (\<lambda>n c. 10 * n + ((of_char c :: nat) - 48)) 0 ds"

text \<open>
  \<^verbatim>\<open>parseFloat\<close> on the decimal part of its grammar: the longest prefix of the shape
  digits, optional dot, digits. \<^term>\<open>None\<close> is \<^verbatim>\<open>NaN\<close>. Signs, leading blanks and exponents
  are left out: the capture groups of the source's patterns are \<^verbatim>\<open>(\d+)\<close>, \<^verbatim>\<open>(\d{2})\<close>,
  \<^verbatim>\<open>(\d+\.?\d*)\<close> and the like, which produce none of them.
\<close>

definition parseFloat :: "string \<Rightarrow> rat option" where
  "parseFloat s =
     (let ip = takeWhile is_digit s;
          rest = dropWhile is_digit s;
          fp = (case rest of [] \<Rightarrow> [] | c # r \<Rightarrow> if c = CHR ''.'' then takeWhile is_digit r else [])
      in if ip = [] \<and> fp = [] then None
         else Some (of_nat (digits_val ip) + of_nat (digits_val fp) / 10 ^ length fp))"

text \<open>\<^verbatim>\<open>isNaN(str)\<close> for a captured string: the whole string has to be a decimal literal.\<close>

definition isNaN_str :: "string \<Rightarrow> bool" where
  "isNaN_str s =
     (let rest = dropWhile is_digit s;
          tl' = (case rest of [] \<Rightarrow> [] | c # r \<Rightarrow> if c = CHR ''.'' then dropWhile is_digit r else rest)
      in \<not> (tl' = [] \<and> list_ex is_digit s))"

subsection \<open>Price history and notifications: the loop body of \<^verbatim>\<open>checkAllPrices\<close>\<close>













subsection \<open>The rate limiter\<close>

record RateLimiter =
  maxRequests :: nat
  windowMs :: int
  requests :: "string \<rightharpoonup> int list"

text \<open>\<^verbatim>\<open>const rateLimiter = new RateLimiter(5, 60000)\<close>.\<close>

definition rateLimiter0 :: RateLimiter where
  "rateLimiter0 = \<lparr>maxRequests = 5, windowMs = 60000, requests = Map.empty\<rparr>"

text \<open>
  \<^verbatim>\<open>waitIfNeeded(key)\<close> called when the clock reads \<open>now\<close>: the time at which the call
  returns (the timer is taken to fire exactly on time) and the limiter it leaves behind.
  The time stamp pushed after the wait is the value \<^verbatim>\<open>now\<close> read at the start of the call.
\<close>

definition waitIfNeeded :: "string \<Rightarrow> int \<Rightarrow> RateLimiter \<Rightarrow> int \<times> RateLimiter" where
  "waitIfNeeded key now rl =
     (let reqs = (case requests rl key of None \<Rightarrow> [] | Some r \<Rightarrow> r);
          recentRequests = filter (\<lambda>time. now - time < windowMs rl) reqs;
          resumed =
            (if length recentRequests \<ge> maxRequests rl then
               (case recentRequests of
                  [] \<Rightarrow> now
                | oldestRequest # _ \<Rightarrow> now + (windowMs rl - (now - oldestRequest)))
             else now)
      in (resumed, rl\<lparr>requests := (requests rl)(key \<mapsto> recentRequests @ [now])\<rparr>))"

text \<open>
  Calls for one key made one after the other: call \<open>i\<close> is made at \<open>starts ! i\<close>, or when the
  call before it has returned if that is later. The result lists when each call returned,
  which is when its request goes out.
\<close>

fun admit_all :: "string \<Rightarrow> int list \<Rightarrow> int \<Rightarrow> RateLimiter \<Rightarrow> int list" where
  "admit_all key [] clk rl = []"
| "admit_all key (t # ts) clk rl =
     (let now = max t clk;
          (admitted, rl') = waitIfNeeded key now rl
      in admitted # admit_all key ts admitted rl')"

text \<open>How many admissions fall in the window \<open>(t - w, t]\<close>.\<close>

definition admitted_within :: "int list \<Rightarrow> int \<Rightarrow> int \<Rightarrow> nat" where
  "admitted_within admissions t w = length (filter (\<lambda>a. t - w < a \<and> a \<le> t) admissions)"

subsection \<open>The fallback price generators\<close>

record search_result =
  r_title :: "string option"
  r_price :: rat

text \<open>
  The hash loop: \<^verbatim>\<open>hash = ((hash << 5) - hash) + char; hash = hash & hash\<close>. Every step ends
  in a conversion to a signed 32-bit integer, so the loop is arithmetic modulo \<open>2 ^ 32\<close>
  whose result is read as a signed number.
\<close>

definition string_hash :: "string \<Rightarrow> 32 word" where
  "string_hash s = foldl (\<lambda>hash c. (push_bit 5 hash - hash) + of_nat (of_char c)) 0 s"

text \<open>\<^verbatim>\<open>Math.abs(hash)\<close>.\<close>

definition abs_hash :: "string \<Rightarrow> int" where
  "abs_hash s = \<bar>sint (string_hash s)\<bar>"

text \<open>\<^verbatim>\<open>platformMultiplier[platform] || 1.0\<close>.\<close>

definition platformMultiplier :: "string \<Rightarrow> rat" where
  "platformMultiplier platform =
     (if platform = ''ebay'' then 85 / 100
      else if platform = ''amazon'' then 1
      else if platform = ''walmart'' then 90 / 100
      else if platform = ''bestbuy'' then 95 / 100
      else if platform = ''target'' then 95 / 100
      else 1)"

text \<open>\<^verbatim>\<open>platform.charAt(0).toUpperCase() + platform.slice(1)\<close>.\<close>

definition capitalize :: "string \<Rightarrow> string" where
  "capitalize platform = (case platform of [] \<Rightarrow> [] | c # cs \<Rightarrow> toUpperCase_char c # cs)"

definition getSearchFallbackPrice :: "string \<Rightarrow> string \<Rightarrow> search_result" where
  "getSearchFallbackPrice searchTerms platform =
     (let fallbackTitle = searchTerms @ '' - '' @ capitalize platform @ '' Result'';
          h = abs_hash searchTerms;
          terms = toLowerCase searchTerms;
          priceMultiplier = platformMultiplier platform;
          result = (\<lambda>fallbackPrice :: int. \<lparr>r_title = Some fallbackTitle, r_price = of_int fallbackPrice\<rparr>)
      in if str_includes terms ''iphone'' \<or> str_includes terms ''phone'' then
           (let basePrice = \<lfloor>350 * priceMultiplier\<rfloor>
            in if str_includes terms ''pro max'' \<or> str_includes terms ''15'' \<or> str_includes terms ''14''
               then result (basePrice + 400 + (h mod 200 - 100))
               else if str_includes terms ''13'' \<or> str_includes terms ''12''
               then result (basePrice + 50 + (h mod 150 - 75))
               else result (basePrice + (h mod 100 - 50)))
         else if str_includes terms ''macbook'' \<or> str_includes terms ''laptop'' then
           (let basePrice = \<lfloor>1000 * priceMultiplier\<rfloor>
            in if str_includes terms ''pro'' \<or> str_includes terms ''m3'' \<or> str_includes terms ''m2''
               then result (basePrice + 500 + (h mod 500 - 250))
               else result (basePrice + (h mod 300 - 150)))
         else if str_includes terms ''airpods'' \<or> str_includes terms ''headphone''
                 \<or> str_includes terms ''earbuds'' then
           (let basePrice = \<lfloor>120 * priceMultiplier\<rfloor>
            in if str_includes terms ''pro'' \<or> str_includes terms ''max''
               then result (basePrice + 150 + (h mod 100 - 50))
               else result (basePrice + (h mod 50 - 25)))
         else
           (let estimatedPrice =
                  (if str_includes terms ''gaming'' \<or> str_includes terms ''professional''
                      \<or> str_includes terms ''premium'' then 200
                   else if str_includes terms ''budget'' \<or> str_includes terms ''cheap''
                      \<or> str_includes terms ''basic'' then 25
                   else (50 :: rat));
                basePrice = \<lfloor>estimatedPrice * priceMultiplier\<rfloor>;
                variation = h mod (max 20 \<lfloor>of_int basePrice * (4 / 10 :: rat)\<rfloor>)
                              - \<lfloor>of_int basePrice * (2 / 10 :: rat)\<rfloor>
            in result (max 10 (basePrice + variation))))"

text \<open>\<^verbatim>\<open>getFallbackPrice(url)\<close>, the generator of the URL-based path.\<close>

definition getFallbackPrice :: "string \<Rightarrow> rat" where
  "getFallbackPrice url =
     (let h = abs_hash url;
          on_ebay = str_includes url ''ebay''
      in if str_includes url ''iphone'' \<or> str_includes url ''iPhone'' then
           (if str_includes url ''128gb'' \<or> str_includes url ''128GB''
            then of_int ((if on_ebay then 360 else 380) + (h mod 60 - 30))
            else if str_includes url ''64gb'' \<or> str_includes url ''64GB''
            then of_int ((if on_ebay then 280 else 320) + (h mod 40 - 20))
            else of_int ((if on_ebay then 300 else 350) + (h mod 100 - 50)))
         else if str_includes url ''laptop'' \<or> str_includes url ''macbook''
         then of_int ((if on_ebay then 800 else 1000) + (h mod 200 - 100))
         else if str_includes url ''headphone'' \<or> str_includes url ''airpods''
         then of_int ((if on_ebay then 100 else 130) + (h mod 30 - 15))
         else of_int (max 10 ((if on_ebay then 35 else 50) + (h mod 20 - 10))))"

subsection \<open>Extraction from markup\<close>

text \<open>
  A selector is one regular expression of the source applied with \<^verbatim>\<open>html.match(pattern)\<close>:
  no match, or the capture groups \<^verbatim>\<open>match[1]\<close> and, where the pattern has a second group,
  \<^verbatim>\<open>match[2]\<close>. A global pattern is one applied with \<^verbatim>\<open>pattern.exec(html)\<close> until it
  returns \<^verbatim>\<open>null\<close>: the \<^verbatim>\<open>match[1]\<close> of every match, in page order. The record lists the
  pattern arrays of the source in their order, with the URL parser and the URL escaping.
\<close>

type_synonym capture = "string \<times> string option"
type_synonym selector = "string \<Rightarrow> capture option"
type_synonym title_pattern = "string \<Rightarrow> string option"
type_synonym global_pattern = "string \<Rightarrow> string list"

record runtime =
  amazonSelectors :: "selector list"
  amazonTitles :: "title_pattern list"
  ebaySelectors :: "selector list"
  ebayTitles :: "title_pattern list"
  walmartSelectors :: "selector list"
  bestbuySelectors :: "selector list"
  targetSelectors :: "selector list"
  amazonPatterns :: "global_pattern list"
  ebayPatterns :: "global_pattern list"
  hostname :: "string \<Rightarrow> string option"
  encodeURIComponent :: "string \<Rightarrow> string"

datatype extracted = Obj search_result | Num rat

text \<open>
  \<^verbatim>\<open>if (match[2] && !isNaN(match[2])) price = parseFloat(`${match[1]}.${match[2]}`)
  else price = parseFloat(match[1])\<close>.
\<close>

definition candidate_price :: "capture \<Rightarrow> rat option" where
  "candidate_price m =
     (case snd m of
        None \<Rightarrow> parseFloat (fst m)
      | Some m2 \<Rightarrow> if m2 \<noteq> [] \<and> \<not> isNaN_str m2 then parseFloat (fst m @ ''.'' @ m2)
                   else parseFloat (fst m))"

text \<open>The query-sensitive minimum: default, laptop and phone values differ per platform.\<close>

definition minPrice_for :: "rat \<Rightarrow> rat \<Rightarrow> rat \<Rightarrow> string \<Rightarrow> rat" where
  "minPrice_for dflt laptop phone searchTerms =
     (let t = toLowerCase searchTerms
      in if str_includes t ''macbook'' \<or> str_includes t ''laptop'' then laptop
         else if str_includes t ''iphone'' \<or> str_includes t ''phone'' then phone
         else dflt)"

text \<open>\<^verbatim>\<open>html.match(a) || html.match(b) || html.match(c)\<close>, then the trimmed group or the default.\<close>

fun first_title :: "title_pattern list \<Rightarrow> string \<Rightarrow> string option" where
  "first_title [] html = None"
| "first_title (p # ps) html = (case p html of Some t \<Rightarrow> Some t | None \<Rightarrow> first_title ps html)"

definition title_or :: "title_pattern list \<Rightarrow> string \<Rightarrow> string \<Rightarrow> string" where
  "title_or pats html dflt = (case first_title pats html of Some t \<Rightarrow> trim t | None \<Rightarrow> dflt)"

text \<open>
  The \<^verbatim>\<open>for\<close> loop over a selector array, which the source writes once per platform: the
  first selector that matches and whose candidate is accepted returns; a selector that does
  not match, or whose candidate is rejected, lets the loop go on.
\<close>

fun scan_selectors :: "(capture \<Rightarrow> 'a option) \<Rightarrow> selector list \<Rightarrow> string \<Rightarrow> 'a option" where
  "scan_selectors accept [] html = None"
| "scan_selectors accept (pattern # rest) html =
     (case pattern html of
        None \<Rightarrow> scan_selectors accept rest html
      | Some m \<Rightarrow>
          (case accept m of
             Some r \<Rightarrow> Some r
           | None \<Rightarrow> scan_selectors accept rest html))"

definition amazon_accept :: "runtime \<Rightarrow> string \<Rightarrow> string \<Rightarrow> capture \<Rightarrow> extracted option" where
  "amazon_accept rt html searchTerms m =
     (case candidate_price m of
        None \<Rightarrow> None
      | Some price \<Rightarrow>
          if price \<ge> 10 \<and> price \<le> 5000 then
            (if price \<ge> minPrice_for 50 400 100 searchTerms
             then Some (Obj \<lparr>r_title = Some (title_or (amazonTitles rt) html
                                               (searchTerms @ '' - Amazon Result'')),
                             r_price = price\<rparr>)
             else None)
          else None)"

definition ebay_accept :: "runtime \<Rightarrow> string \<Rightarrow> string \<Rightarrow> capture \<Rightarrow> extracted option" where
  "ebay_accept rt html searchTerms m =
     (case parseFloat (fst m) of
        None \<Rightarrow> None
      | Some price \<Rightarrow>
          if price \<ge> minPrice_for 50 500 150 searchTerms \<and> price \<le> 5000
          then Some (Obj \<lparr>r_title = Some (title_or (ebayTitles rt) html
                                            (searchTerms @ '' - eBay Result'')),
                          r_price = price\<rparr>)
          else None)"

text \<open>Walmart, Best Buy and Target share one loop body, which returns the bare number.\<close>

definition number_accept :: "string \<Rightarrow> capture \<Rightarrow> extracted option" where
  "number_accept searchTerms m =
     (case candidate_price m of
        None \<Rightarrow> None
      | Some price \<Rightarrow>
          if price \<ge> minPrice_for 50 400 100 searchTerms \<and> price \<le> 5000
          then Some (Num price) else None)"

definition extractFirstResultWithTitle :: "runtime \<Rightarrow> string \<Rightarrow> string \<Rightarrow> string \<Rightarrow> extracted option" where
  "extractFirstResultWithTitle rt html platform searchTerms =
     (if platform = ''amazon'' then
        scan_selectors (amazon_accept rt html searchTerms) (amazonSelectors rt) html
      else if platform = ''ebay'' then
        scan_selectors (ebay_accept rt html searchTerms) (ebaySelectors rt) html
      else if platform = ''walmart'' then
        scan_selectors (number_accept searchTerms) (walmartSelectors rt) html
      else if platform = ''bestbuy'' then
        scan_selectors (number_accept searchTerms) (bestbuySelectors rt) html
      else if platform = ''target'' then
        scan_selectors (number_accept searchTerms) (targetSelectors rt) html
      else None)"

text \<open>
  \<^verbatim>\<open>extractPriceFromHtml\<close>: every pattern contributes all its captures between 50 and 1500;
  the prices are made distinct and sorted ascending; the first one (for an iPhone URL the
  first one inside the model's band, when there is one) is selected.
\<close>

definition collect_prices :: "global_pattern list \<Rightarrow> string \<Rightarrow> rat list" where
  "collect_prices patterns html =
     concat (map (\<lambda>pattern. filter (\<lambda>price. price \<ge> 50 \<and> price \<le> 1500)
                               (List.map_filter parseFloat (pattern html))) patterns)"

definition extractPriceFromHtml :: "runtime \<Rightarrow> string \<Rightarrow> string \<Rightarrow> rat option" where
  "extractPriceFromHtml rt html url =
     (let found = (if str_includes url ''amazon.'' then collect_prices (amazonPatterns rt) html
                   else if str_includes url ''ebay.'' then collect_prices (ebayPatterns rt) html
                   else []);
          prices = sort (remdups found)
      in case prices of
           [] \<Rightarrow> None
         | lowest # _ \<Rightarrow>
             if str_includes url ''iphone'' \<or> str_includes url ''iPhone'' then
               (if str_includes url ''128gb'' \<or> str_includes url ''128GB'' then
                  (case filter (\<lambda>p. p \<ge> 300 \<and> p \<le> 700) prices of
                     [] \<Rightarrow> Some lowest | p # _ \<Rightarrow> Some p)
                else
                  (case filter (\<lambda>p. p \<ge> 200 \<and> p \<le> 900) prices of
                     [] \<Rightarrow> Some lowest | p # _ \<Rightarrow> Some p))
             else Some lowest)"

subsection \<open>The process state, the network and the two acquisition operations\<close>

record cache_entry =
  c_title :: "string option"
  c_price :: rat
  c_timestamp :: int

text \<open>
  The state the acquisition code shares: the clock, the map \<^verbatim>\<open>priceCache\<close>, the object
  \<^verbatim>\<open>rateLimiter\<close>, and how many HTTP requests have been issued so far.
\<close>

record process =
  clock :: int
  priceCache :: "string \<rightharpoonup> cache_entry"
  rateLimiter :: RateLimiter
  sent :: nat

definition process0 :: process where
  "process0 = \<lparr>clock = 0, priceCache = Map.empty, rateLimiter = rateLimiter0, sent = 0\<rparr>"

text \<open>
  What becomes of one HTTP request: the \<^verbatim>\<open>timeout\<close> event, the \<^verbatim>\<open>error\<close> event, an
  exception while the request is set up (the outer \<^verbatim>\<open>catch\<close>), or a response with its status
  and what the body stream delivers: the decoded text, a stream error, or an exception
  in the \<^verbatim>\<open>end\<close> handler. The network is a function from the number of the request to its
  reply and the time the reply took.
\<close>

datatype body = Body string | StreamError | ParseError

datatype net_outcome = Timeout | RequestError | SetupError | Response nat body

record net_reply =
  outcome :: net_outcome
  elapsed :: nat

type_synonym network = "nat \<Rightarrow> net_reply"

text \<open>\<^verbatim>\<open>cachedResult && (Date.now() - cachedResult.timestamp) < 300000\<close>.\<close>

definition cache_lookup :: "(string \<rightharpoonup> cache_entry) \<Rightarrow> string \<Rightarrow> int \<Rightarrow> cache_entry option" where
  "cache_lookup cache cacheKey now =
     (case cache cacheKey of
        None \<Rightarrow> None
      | Some cachedResult \<Rightarrow> if now - c_timestamp cachedResult < 300000 then Some cachedResult else None)"

definition supported :: "string \<Rightarrow> bool" where
  "supported platform =
     (platform = ''amazon'' \<or> platform = ''ebay'' \<or> platform = ''walmart''
      \<or> platform = ''bestbuy'' \<or> platform = ''target'')"

text \<open>
  \<^verbatim>\<open>scrapeFirstResultPrice(searchTerms, platform)\<close>: the value the promise resolves to
  (\<^term>\<open>None\<close> is \<^verbatim>\<open>null\<close>) and the state afterwards.
\<close>

definition scrapeFirstResultPrice ::
    "runtime \<Rightarrow> network \<Rightarrow> string \<Rightarrow> string \<Rightarrow> process \<Rightarrow> search_result option \<times> process" where
  "scrapeFirstResultPrice rt net searchTerms platform s =
     (let (resumed, rl) = waitIfNeeded platform (clock s) (rateLimiter s);
          s1 = s\<lparr>clock := resumed, rateLimiter := rl\<rparr>
      in if \<not> supported platform then (None, s1)
         else
           (let cacheKey = platform @ ''-'' @ searchTerms
            in case cache_lookup (priceCache s1) cacheKey (clock s1) of
                 Some cachedResult \<Rightarrow>
                   (Some \<lparr>r_title = c_title cachedResult, r_price = c_price cachedResult\<rparr>, s1)
               | None \<Rightarrow>
                   (let reply = net (sent s1);
                        s2 = s1\<lparr>clock := clock s1 + int (elapsed reply), sent := sent s1 + 1\<rparr>;
                        fallbackPrice = getSearchFallbackPrice searchTerms platform
                    in case outcome reply of
                         Timeout \<Rightarrow> (Some fallbackPrice, s2)
                       | RequestError \<Rightarrow> (Some fallbackPrice, s2)
                       | SetupError \<Rightarrow> (Some fallbackPrice, s2)
                       | Response statusCode b \<Rightarrow>
                           if statusCode \<noteq> 200 then (Some fallbackPrice, s2)
                           else
                             (case b of
                                StreamError \<Rightarrow> (Some fallbackPrice, s2)
                              | ParseError \<Rightarrow> (Some fallbackPrice, s2)
                              | Body html \<Rightarrow>
                                  (case extractFirstResultWithTitle rt html platform searchTerms of
                                     Some (Obj extractedResult) \<Rightarrow>
                                       if r_price extractedResult > 0 then
                                         (Some extractedResult,
                                          s2\<lparr>priceCache := (priceCache s2)(cacheKey \<mapsto>
                                               \<lparr>c_title = r_title extractedResult,
                                                c_price = r_price extractedResult,
                                                c_timestamp = clock s2\<rparr>)\<rparr>)
                                       else (Some fallbackPrice, s2)
                                   | Some (Num n) \<Rightarrow> (Some fallbackPrice, s2)
                                   | None \<Rightarrow> (Some fallbackPrice, s2))))))"

text \<open>
  \<^verbatim>\<open>scrapePrice(url)\<close> for a string \<open>url\<close>. When \<^verbatim>\<open>new URL(url)\<close> throws, the outer
  \<^verbatim>\<open>catch\<close> resolves with the fallback price.
\<close>

definition scrapePrice :: "runtime \<Rightarrow> network \<Rightarrow> string \<Rightarrow> process \<Rightarrow> rat \<times> process" where
  "scrapePrice rt net url s =
     (case hostname rt url of
        None \<Rightarrow> (getFallbackPrice url, s)
      | Some host \<Rightarrow>
          (let (resumed, rl) = waitIfNeeded host (clock s) (rateLimiter s);
               s1 = s\<lparr>clock := resumed, rateLimiter := rl\<rparr>
           in case cache_lookup (priceCache s1) url (clock s1) of
                Some cachedResult \<Rightarrow> (c_price cachedResult, s1)
              | None \<Rightarrow>
                  (let reply = net (sent s1);
                       s2 = s1\<lparr>clock := clock s1 + int (elapsed reply), sent := sent s1 + 1\<rparr>;
                       fallbackPrice = getFallbackPrice url
                   in case outcome reply of
                        Timeout \<Rightarrow> (fallbackPrice, s2)
                      | RequestError \<Rightarrow> (fallbackPrice, s2)
                      | SetupError \<Rightarrow> (fallbackPrice, s2)
                      | Response statusCode b \<Rightarrow>
                          if statusCode \<noteq> 200 then (fallbackPrice, s2)
                          else
                            (case b of
                               StreamError \<Rightarrow> (fallbackPrice, s2)
                             | ParseError \<Rightarrow> (fallbackPrice, s2)
                             | Body html \<Rightarrow>
                                 (case extractPriceFromHtml rt html url of
                                    Some extractedPrice \<Rightarrow>
                                      if extractedPrice \<noteq> 0 \<and> extractedPrice > 0 then
                                        (extractedPrice,
                                         s2\<lparr>priceCache := (priceCache s2)(url \<mapsto>
                                              \<lparr>c_title = None, c_price = extractedPrice,
                                               c_timestamp = clock s2\<rparr>)\<rparr>)
                                      else (fallbackPrice, s2)
                                  | None \<Rightarrow> (fallbackPrice, s2))))))"

subsection \<open>The retry helper\<close>

text \<open>
  \<^verbatim>\<open>retryWithBackoff(fn, maxRetries, initialDelay)\<close>. One call of \<^verbatim>\<open>fn\<close> returns a value,
  \<^verbatim>\<open>null\<close> or throws, and may change a state. The result is what the helper returns or
  throws, the delays it waited in order, and the final state. No function of the source calls
  this helper.
\<close>

datatype ('e, 'a) attempt = Threw 'e | Returned "'a option"

definition after_delay :: "int \<Rightarrow> ('e, 'a) attempt \<times> int list \<times> 's \<Rightarrow> ('e, 'a) attempt \<times> int list \<times> 's" where
  "after_delay delay rest = (fst rest, delay # fst (snd rest), snd (snd rest))"

function retry_from ::
    "('s \<Rightarrow> ('e, 'a) attempt \<times> 's) \<Rightarrow> nat \<Rightarrow> int \<Rightarrow> nat \<Rightarrow> 's \<Rightarrow> ('e, 'a) attempt \<times> int list \<times> 's" where
  "retry_from fn maxRetries initialDelay attempt s =
     (if attempt \<le> maxRetries then
        (case fn s of
           (Returned (Some result), s') \<Rightarrow> (Returned (Some result), [], s')
         | (Returned None, s') \<Rightarrow>
             if attempt < maxRetries
             then after_delay (initialDelay * 2 ^ (attempt - 1))
                    (retry_from fn maxRetries initialDelay (attempt + 1) s')
             else retry_from fn maxRetries initialDelay (attempt + 1) s'
         | (Threw error, s') \<Rightarrow>
             if attempt < maxRetries
             then after_delay (initialDelay * 2 ^ (attempt - 1))
                    (retry_from fn maxRetries initialDelay (attempt + 1) s')
             else (Threw error, [], s'))
      else (Returned None, [], s))"
  by pat_completeness auto
termination
  by (relation "measure (\<lambda>(fn, maxRetries, initialDelay, attempt, s). Suc maxRetries - attempt)") auto

definition retryWithBackoff ::
    "('s \<Rightarrow> ('e, 'a) attempt \<times> 's) \<Rightarrow> nat \<Rightarrow> int \<Rightarrow> 's \<Rightarrow> ('e, 'a) attempt \<times> int list \<times> 's" where
  "retryWithBackoff fn maxRetries initialDelay s = retry_from fn maxRetries initialDelay 1 s"

subsection \<open>The \<^verbatim>\<open>add-product\<close> handler\<close>









subsection \<open>Vocabulary of the properties\<close>







text \<open>
  What a reply yields when it is a 200 response whose page gives an extraction that the
  caller accepts (\<^verbatim>\<open>extractedResult && extractedResult.price > 0\<close>); \<^term>\<open>None\<close> otherwise.
\<close>

definition live_result :: "runtime \<Rightarrow> net_outcome \<Rightarrow> string \<Rightarrow> string \<Rightarrow> search_result option" where
  "live_result rt out platform searchTerms =
     (case out of
        Response statusCode (Body html) \<Rightarrow>
          if statusCode = 200 then
            (case extractFirstResultWithTitle rt html platform searchTerms of
               Some (Obj r) \<Rightarrow> if r_price r > 0 then Some r else None
             | _ \<Rightarrow> None)
          else None
      | _ \<Rightarrow> None)"

text \<open>The same for the URL-based path (\<^verbatim>\<open>extractedPrice && extractedPrice > 0\<close>).\<close>

definition live_price :: "runtime \<Rightarrow> net_outcome \<Rightarrow> string \<Rightarrow> rat option" where
  "live_price rt out url =
     (case out of
        Response statusCode (Body html) \<Rightarrow>
          if statusCode = 200 then
            (case extractPriceFromHtml rt html url of
               Some p \<Rightarrow> if p > 0 then Some p else None
             | None \<Rightarrow> None)
          else None
      | _ \<Rightarrow> None)"

text \<open>The cache entry that the search-based acquisition finds fresh, read after the limiter's wait.\<close>

definition cached_for :: "process \<Rightarrow> string \<Rightarrow> string \<Rightarrow> cache_entry option" where
  "cached_for s searchTerms platform =
     cache_lookup (priceCache s) (platform @ ''-'' @ searchTerms)
       (fst (waitIfNeeded platform (clock s) (rateLimiter s)))"

definition after_wait :: "string \<Rightarrow> process \<Rightarrow> process" where
  "after_wait key s = s\<lparr>clock := fst (waitIfNeeded key (clock s) (rateLimiter s)),
                         rateLimiter := snd (waitIfNeeded key (clock s) (rateLimiter s))\<rparr>"

definition after_reply :: "network \<Rightarrow> process \<Rightarrow> process" where
  "after_reply net s = s\<lparr>clock := clock s + int (elapsed (net (sent s))), sent := sent s + 1\<rparr>"

text \<open>
  A run of the process: search-based acquisitions, URL-based acquisitions and time passing,
  in any order, each acquisition with the network it meets.
\<close>

datatype step = Search network string string | ByUrl network string | Wait nat

fun run :: "runtime \<Rightarrow> step list \<Rightarrow> process \<Rightarrow> process" where
  "run rt [] s = s"
| "run rt (Search net searchTerms platform # rest) s =
     run rt rest (snd (scrapeFirstResultPrice rt net searchTerms platform s))"
| "run rt (ByUrl net url # rest) s = run rt rest (snd (scrapePrice rt net url s))"
| "run rt (Wait d # rest) s = run rt rest (s\<lparr>clock := clock s + int d\<rparr>)"

text \<open>
  The URLs handed to \<^verbatim>\<open>scrapePrice\<close> are the \<^verbatim>\<open>https://www.amazon.com/...\<close> and
  \<^verbatim>\<open>https://www.ebay.com/...\<close> addresses its callers store.
\<close>

definition http_urls :: "step list \<Rightarrow> bool" where
  "http_urls steps =
     list_all (\<lambda>st. case st of ByUrl net url \<Rightarrow> startsWith url ''http'' | _ \<Rightarrow> True) steps"

subsection \<open>A sample page, runtime and networks\<close>

text \<open>
  The page \<^verbatim>\<open><span>$429.99</span>\<close>. Of the source's patterns it is matched by the last
  selector of Amazon (\<^verbatim>\<open>/\$(\d{3,4})/i\<close>, capturing 429), of eBay (capturing 429.99), of
  Walmart, Best Buy and Target (\<^verbatim>\<open>/\$(\d+)\.(\d{2})/i\<close>, capturing 429 and 99), and by the
  last global pattern of Amazon and of eBay; no title pattern matches it.
\<close>

definition sample_page :: string where
  "sample_page = ''<span>$429.99</span>''"

definition on_sample :: "'a \<Rightarrow> string \<Rightarrow> 'a option" where
  "on_sample m html = (if html = sample_page then Some m else None)"

definition sample_runtime :: runtime where
  "sample_runtime =
     \<lparr>amazonSelectors = replicate 12 (\<lambda>html. None) @ [on_sample (''429'', None)],
      amazonTitles = replicate 3 (\<lambda>html. None),
      ebaySelectors = replicate 10 (\<lambda>html. None) @ [on_sample (''429.99'', None)],
      ebayTitles = replicate 3 (\<lambda>html. None),
      walmartSelectors = replicate 5 (\<lambda>html. None) @ [on_sample (''429'', Some ''99'')],
      bestbuySelectors = replicate 6 (\<lambda>html. None) @ [on_sample (''429'', Some ''99'')],
      targetSelectors = replicate 5 (\<lambda>html. None) @ [on_sample (''429'', Some ''99'')],
      amazonPatterns =
        replicate 13 (\<lambda>html. []) @ [\<lambda>html. if html = sample_page then [''429.99''] else []],
      ebayPatterns =
        replicate 10 (\<lambda>html. []) @ [\<lambda>html. if html = sample_page then [''429.99''] else []],
      hostname = (\<lambda>url. if startsWith url ''https://www.amazon.com/'' then Some ''www.amazon.com''
                        else if startsWith url ''https://www.ebay.com/'' then Some ''www.ebay.com''
                        else None),
      encodeURIComponent = (\<lambda>s. s)\<rparr>"

text \<open>Every request fails; the first request gets a 503 and later ones the page; every request gets the page.\<close>

definition offline :: network where
  "offline n = \<lparr>outcome = RequestError, elapsed = 0\<rparr>"

definition flaky :: network where
  "flaky n = (if n = 0 then \<lparr>outcome = Response 503 (Body []), elapsed = 120\<rparr>
              else \<lparr>outcome = Response 200 (Body sample_page), elapsed = 80\<rparr>)"

definition online :: network where
  "online n = \<lparr>outcome = Response 200 (Body sample_page), elapsed = 80\<rparr>"

text \<open>
  A cache entry is genuine when its price is positive and it holds what one of the two
  extraction functions returned for some page.
\<close>

abbreviation (input) genuine :: "runtime \<Rightarrow> string \<Rightarrow> cache_entry \<Rightarrow> bool" where
  "genuine rt k e \<equiv>
     0 < c_price e
     \<and> ((\<exists>html platform searchTerms r.
            extractFirstResultWithTitle rt html platform searchTerms = Some (Obj r)
            \<and> k = platform @ ''-'' @ searchTerms \<and> c_title e = r_title r \<and> c_price e = r_price r)
        \<or> (\<exists>html. extractPriceFromHtml rt html k = Some (c_price e) \<and> c_title e = None))"

text \<open>The three platforms whose loop returns the bare number.\<close>

definition number_platform :: "string \<Rightarrow> bool" where
  "number_platform platform =
     (platform = ''walmart'' \<or> platform = ''bestbuy'' \<or> platform = ''target'')"

text \<open>
  The keys under which the cache can hold entries: those of the two platforms whose
  extraction returns an object, and URLs.
\<close>

abbreviation (input) search_keys :: "(string \<rightharpoonup> cache_entry) \<Rightarrow> bool" where
  "search_keys c \<equiv>
     \<forall>k. c k \<noteq> None \<longrightarrow>
       startsWith k ''amazon-'' \<or> startsWith k ''ebay-'' \<or> startsWith k ''http''"

subsection \<open>Vocabulary of the extraction and add-product properties\<close>















section \<open>Properties\<close>

subsection \<open>Rate limiter\<close>

lemma wait_first:
  "0 < m \<Longrightarrow> waitIfNeeded key now \<lparr>maxRequests = m, windowMs = w, requests = Map.empty\<rparr>
     = (now, \<lparr>maxRequests = m, windowMs = w, requests = [key \<mapsto> [now]]\<rparr>)"
  by (simp add: waitIfNeeded_def)

lemma wait_next:
  "waitIfNeeded key now \<lparr>maxRequests = m, windowMs = w, requests = [key \<mapsto> xs]\<rparr>
     = (if length (filter (\<lambda>t. now - t < w) xs) \<ge> m
        then (case filter (\<lambda>t. now - t < w) xs of
                [] \<Rightarrow> now
              | oldest # _ \<Rightarrow> now + (w - (now - oldest)))
        else now,
        \<lparr>maxRequests = m, windowMs = w,
         requests = [key \<mapsto> filter (\<lambda>t. now - t < w) xs @ [now]]\<rparr>)"
  by (simp add: waitIfNeeded_def Let_def split: list.splits)

lemma admit_all_Cons:
  "admit_all key (t # ts) clk rl =
     fst (waitIfNeeded key (max t clk) rl)
       # admit_all key ts (fst (waitIfNeeded key (max t clk) rl))
           (snd (waitIfNeeded key (max t clk) rl))"
  by (simp add: Let_def split: prod.splits)

lemma eleven_admissions:
  "admit_all ''amazon'' [0, 0, 0, 0, 0, 0, 60000, 60000, 60000, 60000, 60000] 0 rateLimiter0
     = [0, 0, 0, 0, 0, 60000, 60000, 60000, 60000, 60000, 60000]"
  by (simp add: rateLimiter0_def wait_first wait_next admit_all_Cons del: admit_all.simps(2))

text \<open>
  C1 (the limiter never admits more than 5 requests of one key within any trailing 60
  seconds, and records each admission at its admission time). The code does not keep this.
  Eleven calls for one key, made one after the other, six of them at time 0 and five at
  time 60000: the sixth call waits until 60000 but pushes the time stamp 0 it read before
  waiting, so at 60000 every recorded stamp has left the window and the five later calls
  are let through at once. Six requests go out at time 60000, one more than
  \<^verbatim>\<open>maxRequests\<close>.
\<close>

theorem rate_limit_exceeded:
  "admit_all ''amazon'' [0, 0, 0, 0, 0, 0, 60000, 60000, 60000, 60000, 60000] 0 rateLimiter0
     = [0, 0, 0, 0, 0, 60000, 60000, 60000, 60000, 60000, 60000]
   \<and> admitted_within
        (admit_all ''amazon'' [0, 0, 0, 0, 0, 0, 60000, 60000, 60000, 60000, 60000] 0 rateLimiter0)
        60000 (windowMs rateLimiter0) = 6
   \<and> maxRequests rateLimiter0 = 5"
  by (simp only: eleven_admissions) (simp add: admitted_within_def rateLimiter0_def)

subsection \<open>Notifications\<close>







subsection \<open>History retention\<close>







subsection \<open>The search-based acquisition, case by case\<close>

lemma scrape_unsupported:
  "\<not> supported platform \<Longrightarrow>
     scrapeFirstResultPrice rt net searchTerms platform s = (None, after_wait platform s)"
  by (simp add: scrapeFirstResultPrice_def after_wait_def Let_def case_prod_beta)

lemma scrape_hit:
  "supported platform \<Longrightarrow> cached_for s searchTerms platform = Some e \<Longrightarrow>
     scrapeFirstResultPrice rt net searchTerms platform s
       = (Some \<lparr>r_title = c_title e, r_price = c_price e\<rparr>, after_wait platform s)"
  by (simp add: scrapeFirstResultPrice_def after_wait_def cached_for_def Let_def case_prod_beta)

lemma scrape_miss:
  "supported platform \<Longrightarrow> cached_for s searchTerms platform = None \<Longrightarrow>
     scrapeFirstResultPrice rt net searchTerms platform s
       = (let s2 = after_reply net (after_wait platform s)
          in case live_result rt (outcome (net (sent s))) platform searchTerms of
               Some r \<Rightarrow>
                 (Some r, s2\<lparr>priceCache := (priceCache s)(platform @ ''-'' @ searchTerms \<mapsto>
                            \<lparr>c_title = r_title r, c_price = r_price r, c_timestamp = clock s2\<rparr>)\<rparr>)
             | None \<Rightarrow> (Some (getSearchFallbackPrice searchTerms platform), s2))"
  by (simp add: scrapeFirstResultPrice_def after_wait_def after_reply_def cached_for_def
        live_result_def Let_def case_prod_beta
        split: net_outcome.splits body.splits option.splits extracted.splits)

lemma scrape_cache:
  "priceCache (snd (scrapeFirstResultPrice rt net searchTerms platform s)) =
     (if supported platform \<and> cached_for s searchTerms platform = None then
        (case live_result rt (outcome (net (sent s))) platform searchTerms of
           Some r \<Rightarrow> (priceCache s)(platform @ ''-'' @ searchTerms \<mapsto>
                       \<lparr>c_title = r_title r, c_price = r_price r,
                        c_timestamp = clock (snd (scrapeFirstResultPrice rt net searchTerms platform s))\<rparr>)
         | None \<Rightarrow> priceCache s)
      else priceCache s)"
proof (cases "supported platform")
  case False
  then show ?thesis by (simp add: scrape_unsupported after_wait_def)
next
  case True
  show ?thesis
  proof (cases "cached_for s searchTerms platform")
    case None
    with True show ?thesis
      by (simp add: scrape_miss Let_def after_reply_def after_wait_def split: option.splits)
  next
    case (Some e)
    with True show ?thesis by (simp add: scrape_hit after_wait_def)
  qed
qed

lemma scrapePrice_cache:
  "priceCache (snd (scrapePrice rt net url s)) = priceCache s
   \<or> (\<exists>p. live_price rt (outcome (net (sent s))) url = Some p
          \<and> fst (scrapePrice rt net url s) = p
          \<and> priceCache (snd (scrapePrice rt net url s)) =
              (priceCache s)(url \<mapsto> \<lparr>c_title = None, c_price = p,
                                     c_timestamp = clock (snd (scrapePrice rt net url s))\<rparr>))"
  by (simp add: scrapePrice_def live_price_def Let_def case_prod_beta
        split: option.splits net_outcome.splits body.splits)

lemma live_result_D:
  "live_result rt out platform searchTerms = Some r \<Longrightarrow>
     \<exists>html. out = Response 200 (Body html)
          \<and> extractFirstResultWithTitle rt html platform searchTerms = Some (Obj r)
          \<and> 0 < r_price r"
  by (auto simp: live_result_def
        split: net_outcome.splits body.splits option.splits extracted.splits if_splits)

lemma live_price_D:
  "live_price rt out url = Some p \<Longrightarrow>
     \<exists>html. out = Response 200 (Body html) \<and> extractPriceFromHtml rt html url = Some p \<and> 0 < p"
  by (auto simp: live_price_def split: net_outcome.splits body.splits option.splits if_splits)

subsection \<open>The sample page and the fresh process\<close>

lemma cached_for_process0: "cached_for process0 q p = None"
  by (simp add: cached_for_def cache_lookup_def process0_def)

lemma sample_amazon:
  "extractFirstResultWithTitle sample_runtime sample_page ''amazon'' ''iphone 13''
     = Some (Obj \<lparr>r_title = Some ''iphone 13 - Amazon Result'', r_price = 429\<rparr>)"
  by (simp add: extractFirstResultWithTitle_def sample_runtime_def on_sample_def eval_nat_numeral
        amazon_accept_def candidate_price_def parseFloat_def is_digit_def digits_val_def
        minPrice_for_def toLowerCase_def toLowerCase_char_def title_or_def sample_page_def)

lemma sample_walmart:
  "extractFirstResultWithTitle sample_runtime sample_page ''walmart'' ''iphone 13''
     = Some (Num (42999 / 100))"
  by (simp add: extractFirstResultWithTitle_def sample_runtime_def on_sample_def eval_nat_numeral
        number_accept_def candidate_price_def parseFloat_def is_digit_def digits_val_def isNaN_str_def
        minPrice_for_def toLowerCase_def toLowerCase_char_def sample_page_def)

lemma fallback_iphone13:
  "getSearchFallbackPrice ''iphone 13'' ''amazon''
     = \<lparr>r_title = Some ''iphone 13 - Amazon Result'', r_price = 366\<rparr>"
  by (simp add: getSearchFallbackPrice_def abs_hash_def string_hash_def toLowerCase_def
        toLowerCase_char_def platformMultiplier_def capitalize_def toUpperCase_char_def
        Let_def char_of_eq_iff)

subsection \<open>Acquisition always yields a value on a supported platform\<close>

text \<open>
  C3, as the code has it. \<^verbatim>\<open>scrapeFirstResultPrice\<close> resolves to \<^verbatim>\<open>null\<close> exactly when the
  platform is none of amazon, ebay, walmart, bestbuy and target; on those five it resolves
  to an object whatever the cache holds and whatever the network does.
\<close>

theorem acquire_null_iff_unsupported:
  "fst (scrapeFirstResultPrice rt net searchTerms platform s) = None \<longleftrightarrow> \<not> supported platform"
proof (cases "supported platform")
  case False
  then show ?thesis by (simp add: scrape_unsupported)
next
  case True
  show ?thesis
  proof (cases "cached_for s searchTerms platform")
    case None
    with True show ?thesis by (simp add: scrape_miss Let_def split: option.splits)
  next
    case (Some e)
    with True show ?thesis by (simp add: scrape_hit)
  qed
qed

theorem acquire_null_iff_unsupported_witness:
  "supported ''walmart''
   \<and> fst (scrapeFirstResultPrice sample_runtime online ''iphone 13'' ''walmart'' process0) \<noteq> None"
  using acquire_null_iff_unsupported [of sample_runtime online "''iphone 13''" "''walmart''" process0]
  by (simp add: supported_def)

text \<open>
  C3 as stated fails: for the platform key \<^verbatim>\<open>google\<close> the promise resolves to \<^verbatim>\<open>null\<close>
  (the \<^verbatim>\<open>Unsupported platform\<close> branch).
\<close>

theorem acquire_null_counterexample:
  "fst (scrapeFirstResultPrice sample_runtime offline ''iphone 13'' ''google'' process0) = None"
  by (simp add: scrape_unsupported supported_def)

subsection \<open>One attempt, no retry\<close>

lemma retry_unrolled:
  "retryWithBackoff fn 3 1000 st =
     (case fn st of
        (Returned (Some v), s1) \<Rightarrow> (Returned (Some v), [], s1)
      | (_, s1) \<Rightarrow>
          (case fn s1 of
             (Returned (Some v), s2) \<Rightarrow> (Returned (Some v), [1000], s2)
           | (_, s2) \<Rightarrow>
               (case fn s2 of
                  (r, s3) \<Rightarrow> (r, [1000, 2000], s3))))"
  by (simp add: retryWithBackoff_def after_delay_def
        split: prod.splits attempt.splits option.splits)

lemma one_request:
  "sent (snd (scrapeFirstResultPrice rt net searchTerms platform s)) \<le> sent s + 1
   \<and> (supported platform \<and> cached_for s searchTerms platform = None \<longrightarrow>
        sent (snd (scrapeFirstResultPrice rt net searchTerms platform s)) = sent s + 1
        \<and> fst (scrapeFirstResultPrice rt net searchTerms platform s)
            = (case live_result rt (outcome (net (sent s))) platform searchTerms of
                 Some r \<Rightarrow> Some r
               | None \<Rightarrow> Some (getSearchFallbackPrice searchTerms platform)))"
proof (cases "supported platform")
  case False
  then show ?thesis by (simp add: scrape_unsupported after_wait_def)
next
  case True
  show ?thesis
  proof (cases "cached_for s searchTerms platform")
    case None
    with True show ?thesis
      by (simp add: scrape_miss Let_def after_reply_def after_wait_def split: option.splits)
  next
    case (Some e)
    with True show ?thesis by (simp add: scrape_hit after_wait_def)
  qed
qed

text \<open>
  C4, as the code has it. On a cache miss the acquisition issues exactly one HTTP request
  and never more than one in a call: a reply that carries an accepted extraction is returned,
  any other reply makes it return the fallback value at once. The helper
  \<^verbatim>\<open>retryWithBackoff\<close> does implement the policy of the claim (with its defaults: at most
  three attempts, a wait of 1000 ms after the first and 2000 ms after the second, an attempt
  succeeding only when it returns a value that is not \<^verbatim>\<open>null\<close>), but no acquisition path
  calls it.
\<close>

theorem single_attempt_no_retry:
  "sent (snd (scrapeFirstResultPrice rt net searchTerms platform s)) \<le> sent s + 1
   \<and> (supported platform \<and> cached_for s searchTerms platform = None \<longrightarrow>
        sent (snd (scrapeFirstResultPrice rt net searchTerms platform s)) = sent s + 1
        \<and> fst (scrapeFirstResultPrice rt net searchTerms platform s)
            = (case live_result rt (outcome (net (sent s))) platform searchTerms of
                 Some r \<Rightarrow> Some r
               | None \<Rightarrow> Some (getSearchFallbackPrice searchTerms platform)))
   \<and> retryWithBackoff fn 3 1000 st =
       (case fn st of
          (Returned (Some v), s1) \<Rightarrow> (Returned (Some v), [], s1)
        | (_, s1) \<Rightarrow>
            (case fn s1 of
               (Returned (Some v), s2) \<Rightarrow> (Returned (Some v), [1000], s2)
             | (_, s2) \<Rightarrow>
                 (case fn s2 of
                    (r, s3) \<Rightarrow> (r, [1000, 2000], s3))))"
  using one_request [of rt net searchTerms platform s] retry_unrolled [of fn st] by blast

theorem single_attempt_no_retry_witness:
  "supported ''amazon'' \<and> cached_for process0 ''iphone 13'' ''amazon'' = None
   \<and> sent (snd (scrapeFirstResultPrice sample_runtime online ''iphone 13'' ''amazon'' process0)) = 1
   \<and> fst (scrapeFirstResultPrice sample_runtime online ''iphone 13'' ''amazon'' process0)
       = Some \<lparr>r_title = Some ''iphone 13 - Amazon Result'', r_price = 429\<rparr>
   \<and> retryWithBackoff (\<lambda>n :: nat. (Returned (None :: nat option) :: (unit, nat) attempt, Suc n)) 3 1000 0
       = (Returned None, [1000, 2000], 3)"
proof -
  have s: "supported ''amazon''" by (simp add: supported_def)
  have l: "live_result sample_runtime (outcome (online (sent process0))) ''amazon'' ''iphone 13''
             = Some \<lparr>r_title = Some ''iphone 13 - Amazon Result'', r_price = 429\<rparr>"
    by (simp add: live_result_def online_def sample_amazon)
  show ?thesis
    using single_attempt_no_retry [of sample_runtime online "''iphone 13''" "''amazon''" process0
        "\<lambda>n :: nat. (Returned (None :: nat option) :: (unit, nat) attempt, Suc n)" 0]
      s cached_for_process0 [of "''iphone 13''" "''amazon''"] l
    by (simp add: process0_def numeral_3_eq_3)
qed

text \<open>
  C4 as stated fails: the first request gets a 503 and a second one would get a page with
  an accepted price, yet the call returns the fallback value after that one request.
\<close>

theorem fallback_after_one_attempt:
  "fst (scrapeFirstResultPrice sample_runtime flaky ''iphone 13'' ''amazon'' process0)
     = Some (getSearchFallbackPrice ''iphone 13'' ''amazon'')
   \<and> sent (snd (scrapeFirstResultPrice sample_runtime flaky ''iphone 13'' ''amazon'' process0)) = 1
   \<and> live_result sample_runtime (outcome (flaky 1)) ''amazon'' ''iphone 13''
     = Some \<lparr>r_title = Some ''iphone 13 - Amazon Result'', r_price = 429\<rparr>"
proof -
  have s: "supported ''amazon''" by (simp add: supported_def)
  have l0: "live_result sample_runtime (outcome (flaky (sent process0))) ''amazon'' ''iphone 13'' = None"
    by (simp add: live_result_def flaky_def process0_def)
  have l1: "live_result sample_runtime (outcome (flaky 1)) ''amazon'' ''iphone 13''
     = Some \<lparr>r_title = Some ''iphone 13 - Amazon Result'', r_price = 429\<rparr>"
    by (simp add: live_result_def flaky_def sample_amazon)
  have eq: "scrapeFirstResultPrice sample_runtime flaky ''iphone 13'' ''amazon'' process0
      = (Some (getSearchFallbackPrice ''iphone 13'' ''amazon''),
         after_reply flaky (after_wait ''amazon'' process0))"
    using scrape_miss [OF s cached_for_process0, of sample_runtime flaky "''iphone 13''"] l0
    by (simp add: Let_def)
  have "sent (after_reply flaky (after_wait ''amazon'' process0)) = 1"
    by (simp add: after_reply_def after_wait_def process0_def)
  with eq l1 show ?thesis by simp
qed


subsection \<open>The fallback value does not depend on the process state\<close>

text \<open>
  C5. The body of \<^verbatim>\<open>getSearchFallbackPrice\<close> reads its two arguments only (no clock, no
  random source, no global), so its embedding is a function of the pair. Stated on the
  calls the program makes: two acquisitions of the same query on the same platform that end
  in the fallback branch resolve to the same title and price, in whatever states, with
  whatever runtimes and after whatever failed replies they run.
\<close>

theorem fallback_deterministic:
  assumes "supported platform"
    and "cached_for s1 searchTerms platform = None"
    and "cached_for s2 searchTerms platform = None"
    and "live_result rt1 (outcome (net1 (sent s1))) platform searchTerms = None"
    and "live_result rt2 (outcome (net2 (sent s2))) platform searchTerms = None"
  shows "fst (scrapeFirstResultPrice rt1 net1 searchTerms platform s1)
           = fst (scrapeFirstResultPrice rt2 net2 searchTerms platform s2)
       \<and> fst (scrapeFirstResultPrice rt1 net1 searchTerms platform s1)
           = Some (getSearchFallbackPrice searchTerms platform)"
  using assms by (simp add: scrape_miss Let_def)

theorem fallback_deterministic_witness:
  "fst (scrapeFirstResultPrice sample_runtime offline ''iphone 13'' ''amazon'' process0)
     = fst (scrapeFirstResultPrice sample_runtime flaky ''iphone 13'' ''amazon''
              (process0\<lparr>clock := 500000\<rparr>))
   \<and> fst (scrapeFirstResultPrice sample_runtime offline ''iphone 13'' ''amazon'' process0)
     = Some \<lparr>r_title = Some ''iphone 13 - Amazon Result'', r_price = 366\<rparr>"
proof -
  have s: "supported ''amazon''" by (simp add: supported_def)
  have c2: "cached_for (process0\<lparr>clock := 500000\<rparr>) ''iphone 13'' ''amazon'' = None"
    by (simp add: cached_for_def cache_lookup_def process0_def)
  have l1: "live_result sample_runtime (outcome (offline (sent process0))) ''amazon'' ''iphone 13'' = None"
    by (simp add: live_result_def offline_def)
  have l2: "live_result sample_runtime (outcome (flaky (sent (process0\<lparr>clock := 500000\<rparr>))))
              ''amazon'' ''iphone 13'' = None"
    by (simp add: live_result_def flaky_def process0_def)
  show ?thesis
    using fallback_deterministic [where platform = "''amazon''" and searchTerms = "''iphone 13''"
        and ?s1.0 = process0 and ?s2.0 = "process0\<lparr>clock := 500000\<rparr>"
        and ?rt1.0 = sample_runtime and ?rt2.0 = sample_runtime
        and ?net1.0 = offline and ?net2.0 = flaky]
      s cached_for_process0 [of "''iphone 13''" "''amazon''"] c2 l1 l2
    unfolding fallback_iphone13 by blast
qed

subsection \<open>What the cache holds\<close>

lemma search_keeps_genuine:
  assumes "\<forall>k e. priceCache s k = Some e \<longrightarrow> genuine rt k e"
  shows "\<forall>k e. priceCache (snd (scrapeFirstResultPrice rt net q p s)) k = Some e \<longrightarrow> genuine rt k e"
proof (cases "live_result rt (outcome (net (sent s))) p q")
  case None
  then show ?thesis using assms by (simp add: scrape_cache)
next
  case (Some r)
  from live_result_D [OF Some] obtain html where
    h: "extractFirstResultWithTitle rt html p q = Some (Obj r)" "0 < r_price r" by blast
  show ?thesis
  proof (intro allI impI)
    fix k e
    assume a: "priceCache (snd (scrapeFirstResultPrice rt net q p s)) k = Some e"
    show "genuine rt k e"
    proof (cases "priceCache s k = Some e")
      case True
      then show ?thesis using assms by blast
    next
      case False
      with a Some have ke: "k = p @ ''-'' @ q \<and> c_title e = r_title r \<and> c_price e = r_price r"
        by (auto simp: scrape_cache split: if_splits)
      then have "0 < c_price e" using h by simp
      moreover have "\<exists>html platform searchTerms r.
            extractFirstResultWithTitle rt html platform searchTerms = Some (Obj r)
            \<and> k = platform @ ''-'' @ searchTerms \<and> c_title e = r_title r \<and> c_price e = r_price r"
        using h ke by blast
      ultimately show ?thesis by blast
    qed
  qed
qed

lemma by_url_keeps_genuine:
  assumes "\<forall>k e. priceCache s k = Some e \<longrightarrow> genuine rt k e"
  shows "\<forall>k e. priceCache (snd (scrapePrice rt net url s)) k = Some e \<longrightarrow> genuine rt k e"
proof -
  from scrapePrice_cache [of rt net url s] show ?thesis
  proof
    assume "priceCache (snd (scrapePrice rt net url s)) = priceCache s"
    then show ?thesis using assms by simp
  next
    assume "\<exists>p. live_price rt (outcome (net (sent s))) url = Some p
          \<and> fst (scrapePrice rt net url s) = p
          \<and> priceCache (snd (scrapePrice rt net url s)) =
              (priceCache s)(url \<mapsto> \<lparr>c_title = None, c_price = p,
                                     c_timestamp = clock (snd (scrapePrice rt net url s))\<rparr>)"
    then obtain p where p: "live_price rt (outcome (net (sent s))) url = Some p"
      and c: "priceCache (snd (scrapePrice rt net url s)) =
              (priceCache s)(url \<mapsto> \<lparr>c_title = None, c_price = p,
                                     c_timestamp = clock (snd (scrapePrice rt net url s))\<rparr>)"
      by blast
    from live_price_D [OF p] obtain html where
      h: "extractPriceFromHtml rt html url = Some p" "0 < p" by blast
    show ?thesis
    proof (intro allI impI)
      fix k e
      assume a: "priceCache (snd (scrapePrice rt net url s)) k = Some e"
      show "genuine rt k e"
      proof (cases "k = url")
        case True
        with a c have pe: "c_price e = p \<and> c_title e = None" by auto
        then have "0 < c_price e" using h by simp
        moreover have "\<exists>html. extractPriceFromHtml rt html k = Some (c_price e) \<and> c_title e = None"
          using h pe True by blast
        ultimately show ?thesis by blast
      next
        case False
        with a c have "priceCache s k = Some e" by simp
        then show ?thesis using assms by blast
      qed
    qed
  qed
qed

lemma run_keeps_genuine:
  "\<forall>k e. priceCache s k = Some e \<longrightarrow> genuine rt k e \<Longrightarrow>
   \<forall>k e. priceCache (run rt steps s) k = Some e \<longrightarrow> genuine rt k e"
proof (induction steps arbitrary: s)
  case Nil
  then show ?case by simp
next
  case (Cons st steps)
  show ?case
  proof (cases st)
    case (Search net q p)
    show ?thesis
      unfolding Search run.simps
      by (rule Cons.IH) (rule search_keeps_genuine [OF Cons.prems])
  next
    case (ByUrl net url)
    show ?thesis
      unfolding ByUrl run.simps
      by (rule Cons.IH) (rule by_url_keeps_genuine [OF Cons.prems])
  next
    case (Wait d)
    show ?thesis
      unfolding Wait run.simps
      by (rule Cons.IH) (use Cons.prems in simp)
  qed
qed

lemma sample_search_cache:
  "priceCache (run sample_runtime [Search online ''iphone 13'' ''amazon''] process0)
     = [''amazon-iphone 13'' \<mapsto>
          \<lparr>c_title = Some ''iphone 13 - Amazon Result'', c_price = 429, c_timestamp = 80\<rparr>]"
proof -
  have s: "supported ''amazon''" by (simp add: supported_def)
  have l: "live_result sample_runtime (outcome (online (sent process0))) ''amazon'' ''iphone 13''
             = Some \<lparr>r_title = Some ''iphone 13 - Amazon Result'', r_price = 429\<rparr>"
    by (simp add: live_result_def online_def sample_amazon)
  have "scrapeFirstResultPrice sample_runtime online ''iphone 13'' ''amazon'' process0
     = (Some \<lparr>r_title = Some ''iphone 13 - Amazon Result'', r_price = 429\<rparr>,
        (after_reply online (after_wait ''amazon'' process0))\<lparr>priceCache := (priceCache process0)(''amazon'' @ ''-'' @ ''iphone 13'' \<mapsto>
                            \<lparr>c_title = Some ''iphone 13 - Amazon Result'', c_price = 429, c_timestamp = clock (after_reply online (after_wait ''amazon'' process0))\<rparr>)\<rparr>)"
    using scrape_miss [OF s cached_for_process0, of sample_runtime online "''iphone 13''"] l
    by (simp add: Let_def)
  then have "priceCache (run sample_runtime [Search online ''iphone 13'' ''amazon''] process0)
      = (priceCache process0)(''amazon'' @ ''-'' @ ''iphone 13'' \<mapsto>
           \<lparr>c_title = Some ''iphone 13 - Amazon Result'', c_price = 429,
            c_timestamp = clock (after_reply online (after_wait ''amazon'' process0))\<rparr>)"
    by simp
  then show ?thesis
    by (simp add: after_reply_def after_wait_def process0_def online_def rateLimiter0_def wait_first)
qed


text \<open>
  C9. Each of the two acquisition operations leaves the cache as it was, or adds one entry
  under its key, and the latter only when the reply was a 200 response from whose page the
  extraction function returned a result with a positive price, which is then also the value
  returned. A call that ends in a fallback value leaves the cache unchanged. So in every
  state the process reaches from its start, every cache entry is genuine.
\<close>

theorem failures_never_cached:
  "(priceCache (snd (scrapeFirstResultPrice rt net searchTerms platform s)) = priceCache s
     \<or> (\<exists>html r. outcome (net (sent s)) = Response 200 (Body html)
           \<and> extractFirstResultWithTitle rt html platform searchTerms = Some (Obj r)
           \<and> 0 < r_price r
           \<and> fst (scrapeFirstResultPrice rt net searchTerms platform s) = Some r
           \<and> priceCache (snd (scrapeFirstResultPrice rt net searchTerms platform s))
               = (priceCache s)(platform @ ''-'' @ searchTerms \<mapsto>
                   \<lparr>c_title = r_title r, c_price = r_price r,
                    c_timestamp = clock (snd (scrapeFirstResultPrice rt net searchTerms platform s))\<rparr>)))
   \<and> (priceCache (snd (scrapePrice rt net url s)) = priceCache s
     \<or> (\<exists>html price. outcome (net (sent s)) = Response 200 (Body html)
           \<and> extractPriceFromHtml rt html url = Some price
           \<and> 0 < price
           \<and> fst (scrapePrice rt net url s) = price
           \<and> priceCache (snd (scrapePrice rt net url s))
               = (priceCache s)(url \<mapsto>
                   \<lparr>c_title = None, c_price = price,
                    c_timestamp = clock (snd (scrapePrice rt net url s))\<rparr>)))
   \<and> (\<forall>k e. priceCache (run rt steps process0) k = Some e \<longrightarrow> genuine rt k e)"
proof (intro conjI)
  show "priceCache (snd (scrapeFirstResultPrice rt net searchTerms platform s)) = priceCache s
     \<or> (\<exists>html r. outcome (net (sent s)) = Response 200 (Body html)
           \<and> extractFirstResultWithTitle rt html platform searchTerms = Some (Obj r)
           \<and> 0 < r_price r
           \<and> fst (scrapeFirstResultPrice rt net searchTerms platform s) = Some r
           \<and> priceCache (snd (scrapeFirstResultPrice rt net searchTerms platform s))
               = (priceCache s)(platform @ ''-'' @ searchTerms \<mapsto>
                   \<lparr>c_title = r_title r, c_price = r_price r,
                    c_timestamp = clock (snd (scrapeFirstResultPrice rt net searchTerms platform s))\<rparr>))"
  proof (cases "supported platform \<and> cached_for s searchTerms platform = None")
    case False
    then have "priceCache (snd (scrapeFirstResultPrice rt net searchTerms platform s)) = priceCache s"
      using scrape_cache [of rt net searchTerms platform s] by auto
    then show ?thesis by blast
  next
    case True
    show ?thesis
    proof (cases "live_result rt (outcome (net (sent s))) platform searchTerms")
      case None
      with True have "priceCache (snd (scrapeFirstResultPrice rt net searchTerms platform s)) = priceCache s"
        using scrape_cache [of rt net searchTerms platform s] by auto
      then show ?thesis by blast
    next
      case (Some r)
      from live_result_D [OF Some] obtain html where
        h: "outcome (net (sent s)) = Response 200 (Body html)"
           "extractFirstResultWithTitle rt html platform searchTerms = Some (Obj r)"
           "0 < r_price r" by blast
      have f: "fst (scrapeFirstResultPrice rt net searchTerms platform s) = Some r"
        using True Some by (simp add: scrape_miss Let_def)
      have c: "priceCache (snd (scrapeFirstResultPrice rt net searchTerms platform s))
               = (priceCache s)(platform @ ''-'' @ searchTerms \<mapsto>
                   \<lparr>c_title = r_title r, c_price = r_price r,
                    c_timestamp = clock (snd (scrapeFirstResultPrice rt net searchTerms platform s))\<rparr>)"
        using True Some scrape_cache [of rt net searchTerms platform s] by auto
      from h f c show ?thesis by blast
    qed
  qed
next
  from scrapePrice_cache [of rt net url s]
  show "priceCache (snd (scrapePrice rt net url s)) = priceCache s
     \<or> (\<exists>html price. outcome (net (sent s)) = Response 200 (Body html)
           \<and> extractPriceFromHtml rt html url = Some price
           \<and> 0 < price
           \<and> fst (scrapePrice rt net url s) = price
           \<and> priceCache (snd (scrapePrice rt net url s))
               = (priceCache s)(url \<mapsto>
                   \<lparr>c_title = None, c_price = price,
                    c_timestamp = clock (snd (scrapePrice rt net url s))\<rparr>))"
  proof
    assume "priceCache (snd (scrapePrice rt net url s)) = priceCache s"
    then show ?thesis by simp
  next
    assume "\<exists>p. live_price rt (outcome (net (sent s))) url = Some p
          \<and> fst (scrapePrice rt net url s) = p
          \<and> priceCache (snd (scrapePrice rt net url s)) =
              (priceCache s)(url \<mapsto> \<lparr>c_title = None, c_price = p,
                                     c_timestamp = clock (snd (scrapePrice rt net url s))\<rparr>)"
    then obtain p where p: "live_price rt (outcome (net (sent s))) url = Some p"
      and f: "fst (scrapePrice rt net url s) = p"
      and c: "priceCache (snd (scrapePrice rt net url s)) =
              (priceCache s)(url \<mapsto> \<lparr>c_title = None, c_price = p,
                                     c_timestamp = clock (snd (scrapePrice rt net url s))\<rparr>)"
      by blast
    from live_price_D [OF p] obtain html where
      h: "outcome (net (sent s)) = Response 200 (Body html)"
         "extractPriceFromHtml rt html url = Some p" "0 < p" by blast
    from h f c show ?thesis by blast
  qed
next
  show "\<forall>k e. priceCache (run rt steps process0) k = Some e \<longrightarrow> genuine rt k e"
    by (rule run_keeps_genuine) (simp add: process0_def)
qed

theorem failures_never_cached_witness:
  "priceCache (run sample_runtime [Search online ''iphone 13'' ''amazon''] process0) ''amazon-iphone 13''
     = Some \<lparr>c_title = Some ''iphone 13 - Amazon Result'', c_price = 429, c_timestamp = 80\<rparr>
   \<and> (\<exists>html platform searchTerms r.
          extractFirstResultWithTitle sample_runtime html platform searchTerms = Some (Obj r)
          \<and> ''amazon-iphone 13'' = platform @ ''-'' @ searchTerms \<and> r_price r = 429)
   \<and> priceCache (snd (scrapeFirstResultPrice sample_runtime offline ''iphone 13'' ''amazon'' process0))
       = priceCache process0"
proof -
  let ?e = "\<lparr>c_title = Some ''iphone 13 - Amazon Result'', c_price = 429, c_timestamp = 80\<rparr>"
  have c: "priceCache (run sample_runtime [Search online ''iphone 13'' ''amazon''] process0) ''amazon-iphone 13''
     = Some ?e"
    unfolding sample_search_cache by simp
  have u: "\<And>html. extractPriceFromHtml sample_runtime html ''amazon-iphone 13'' = None"
    by (simp add: extractPriceFromHtml_def)
  from failures_never_cached [of sample_runtime offline "''iphone 13''" "''amazon''" process0
       "''x''" "[Search online ''iphone 13'' ''amazon'']"]
  have g: "genuine sample_runtime ''amazon-iphone 13'' ?e"
    and n: "priceCache (snd (scrapeFirstResultPrice sample_runtime offline ''iphone 13'' ''amazon'' process0))
       = priceCache process0
       \<or> (\<exists>html r. outcome (offline (sent process0)) = Response 200 (Body html)
           \<and> extractFirstResultWithTitle sample_runtime html ''amazon'' ''iphone 13'' = Some (Obj r)
           \<and> 0 < r_price r
           \<and> fst (scrapeFirstResultPrice sample_runtime offline ''iphone 13'' ''amazon'' process0) = Some r
           \<and> priceCache (snd (scrapeFirstResultPrice sample_runtime offline ''iphone 13'' ''amazon'' process0))
               = (priceCache process0)(''amazon'' @ ''-'' @ ''iphone 13'' \<mapsto>
                   \<lparr>c_title = r_title r, c_price = r_price r,
                    c_timestamp = clock (snd (scrapeFirstResultPrice sample_runtime offline ''iphone 13'' ''amazon'' process0))\<rparr>))"
    using c by blast+
  from n have n': "priceCache (snd (scrapeFirstResultPrice sample_runtime offline ''iphone 13'' ''amazon'' process0))
       = priceCache process0"
    by (simp add: offline_def)
  from g u have "\<exists>html platform searchTerms r.
          extractFirstResultWithTitle sample_runtime html platform searchTerms = Some (Obj r)
          \<and> ''amazon-iphone 13'' = platform @ ''-'' @ searchTerms \<and> r_price r = 429"
    by (simp del: append.simps) metis
  with c n' show ?thesis by blast
qed

subsection \<open>Platforms whose extraction returns a bare number\<close>

lemma startsWith_append: "startsWith (p @ s) p"
  by (induction p) simp_all

lemma scan_number_accept:
  "scan_selectors (number_accept searchTerms) sels html \<noteq> Some (Obj r)"
  by (induction sels) (auto simp: number_accept_def split: option.splits if_splits)

lemma extract_number_platform:
  "number_platform platform \<Longrightarrow>
     extractFirstResultWithTitle rt html platform searchTerms \<noteq> Some (Obj r)"
  by (auto simp: number_platform_def extractFirstResultWithTitle_def scan_number_accept)

lemma live_result_number_platform:
  "number_platform platform \<Longrightarrow> live_result rt out platform searchTerms = None"
  using extract_number_platform [of platform rt _ searchTerms]
  by (auto simp: live_result_def split: net_outcome.splits body.splits option.splits extracted.splits)

lemma live_result_platform:
  assumes "live_result rt out platform searchTerms = Some r"
  shows "platform = ''amazon'' \<or> platform = ''ebay''"
proof -
  from live_result_D [OF assms] obtain html where
    h: "extractFirstResultWithTitle rt html platform searchTerms = Some (Obj r)" by blast
  show ?thesis
  proof (rule ccontr)
    assume n: "\<not> (platform = ''amazon'' \<or> platform = ''ebay'')"
    then have "extractFirstResultWithTitle rt html platform searchTerms \<noteq> Some (Obj r)"
      by (simp add: extractFirstResultWithTitle_def scan_number_accept)
    with h show False by simp
  qed
qed

lemma search_keeps_keys:
  assumes "search_keys (priceCache s)"
  shows "search_keys (priceCache (snd (scrapeFirstResultPrice rt net q p s)))"
proof (cases "live_result rt (outcome (net (sent s))) p q")
  case None
  then have "priceCache (snd (scrapeFirstResultPrice rt net q p s)) = priceCache s"
    using scrape_cache [of rt net q p s] by auto
  then show ?thesis using assms by simp
next
  case (Some r)
  from live_result_platform [OF Some] have "startsWith (p @ ''-'' @ q) ''amazon-'' \<or> startsWith (p @ ''-'' @ q) ''ebay-''"
    using startsWith_append [of "''amazon-''" q] startsWith_append [of "''ebay-''" q] by auto
  then show ?thesis
    using assms Some scrape_cache [of rt net q p s] by (auto split: if_splits)
qed

lemma by_url_keeps_keys:
  assumes "search_keys (priceCache s)" and "startsWith url ''http''"
  shows "search_keys (priceCache (snd (scrapePrice rt net url s)))"
  using scrapePrice_cache [of rt net url s] assms by (auto split: if_splits) blast+

lemma run_keeps_keys:
  "search_keys (priceCache s) \<Longrightarrow> http_urls steps \<Longrightarrow> search_keys (priceCache (run rt steps s))"
proof (induction steps arbitrary: s)
  case Nil
  then show ?case by simp
next
  case (Cons st steps)
  from Cons.prems(2) have rest: "http_urls steps" by (simp add: http_urls_def)
  show ?case
  proof (cases st)
    case (Search net q p)
    show ?thesis
      unfolding Search run.simps
      by (rule Cons.IH [OF _ rest]) (rule search_keeps_keys [OF Cons.prems(1)])
  next
    case (ByUrl net url)
    with Cons.prems(2) have u: "startsWith url ''http''" by (simp add: http_urls_def)
    show ?thesis
      unfolding ByUrl run.simps
      by (rule Cons.IH [OF _ rest]) (rule by_url_keeps_keys [OF Cons.prems(1) u])
  next
    case (Wait d)
    show ?thesis
      unfolding Wait run.simps
      by (rule Cons.IH [OF _ rest]) (use Cons.prems(1) in simp)
  qed
qed

lemma number_platform_miss:
  assumes "number_platform platform" and "search_keys (priceCache s)"
  shows "cached_for s searchTerms platform = None"
proof -
  have "\<not> (startsWith (platform @ ''-'' @ searchTerms) ''amazon-''
          \<or> startsWith (platform @ ''-'' @ searchTerms) ''ebay-''
          \<or> startsWith (platform @ ''-'' @ searchTerms) ''http'')"
    using assms(1) by (auto simp: number_platform_def)
  with assms(2) have "priceCache s (platform @ ''-'' @ searchTerms) = None" by blast
  then show ?thesis by (simp add: cached_for_def cache_lookup_def)
qed

lemma fallback_iphone13_walmart:
  "getSearchFallbackPrice ''iphone 13'' ''walmart''
     = \<lparr>r_title = Some ''iphone 13 - Walmart Result'', r_price = 331\<rparr>"
  by (simp add: getSearchFallbackPrice_def abs_hash_def string_hash_def toLowerCase_def
        toLowerCase_char_def platformMultiplier_def capitalize_def toUpperCase_char_def
        Let_def char_of_eq_iff)

text \<open>
  C10. For Walmart, Best Buy and Target the extraction never returns an object: where a
  pattern matches and its candidate is accepted it returns the bare number, which the
  caller's test \<^verbatim>\<open>extractedResult.price > 0\<close> rejects. So in every state the process reaches
  from its start (by search-based acquisitions, URL-based acquisitions of http addresses and
  time passing) an acquisition on one of these platforms resolves to the fallback value
  and leaves the cache unchanged, whatever the network replies.
\<close>

theorem number_platforms_always_fallback:
  assumes "platform = ''walmart'' \<or> platform = ''bestbuy'' \<or> platform = ''target''"
    and "http_urls steps"
  shows "(\<forall>html r. extractFirstResultWithTitle rt html platform searchTerms \<noteq> Some (Obj r))
       \<and> fst (scrapeFirstResultPrice rt net searchTerms platform (run rt steps process0))
           = Some (getSearchFallbackPrice searchTerms platform)
       \<and> priceCache (snd (scrapeFirstResultPrice rt net searchTerms platform (run rt steps process0)))
           = priceCache (run rt steps process0)"
proof -
  from assms(1) have np: "number_platform platform" by (simp add: number_platform_def)
  then have sup: "supported platform" by (auto simp: number_platform_def supported_def)
  have "search_keys (priceCache (run rt steps process0))"
    by (rule run_keeps_keys [OF _ assms(2)]) (simp add: process0_def)
  then have miss: "cached_for (run rt steps process0) searchTerms platform = None"
    by (rule number_platform_miss [OF np])
  have 1: "\<forall>html r. extractFirstResultWithTitle rt html platform searchTerms \<noteq> Some (Obj r)"
    using extract_number_platform [OF np] by blast
  have 2: "fst (scrapeFirstResultPrice rt net searchTerms platform (run rt steps process0))
           = Some (getSearchFallbackPrice searchTerms platform)"
    by (simp add: scrape_miss [OF sup miss] live_result_number_platform [OF np] Let_def)
  have 3: "priceCache (snd (scrapeFirstResultPrice rt net searchTerms platform (run rt steps process0)))
           = priceCache (run rt steps process0)"
    using scrape_cache [of rt net searchTerms platform "run rt steps process0"]
      live_result_number_platform [OF np] by simp
  from 1 2 3 show ?thesis by blast
qed

theorem number_platforms_always_fallback_witness:
  "http_urls [Search online ''iphone 13'' ''amazon'', ByUrl online ''https://www.amazon.com/s?k=x'', Wait 1000]
   \<and> extractFirstResultWithTitle sample_runtime sample_page ''walmart'' ''iphone 13''
       = Some (Num (42999 / 100))
   \<and> fst (scrapeFirstResultPrice sample_runtime online ''iphone 13'' ''walmart''
            (run sample_runtime
               [Search online ''iphone 13'' ''amazon'', ByUrl online ''https://www.amazon.com/s?k=x'', Wait 1000]
               process0))
       = Some \<lparr>r_title = Some ''iphone 13 - Walmart Result'', r_price = 331\<rparr>"
proof -
  have h: "http_urls [Search online ''iphone 13'' ''amazon'', ByUrl online ''https://www.amazon.com/s?k=x'', Wait 1000]"
    by (simp add: http_urls_def)
  from number_platforms_always_fallback [where platform = "''walmart''" and rt = sample_runtime
        and net = online and searchTerms = "''iphone 13''", OF _ h]
  show ?thesis
    using h sample_walmart unfolding fallback_iphone13_walmart by blast
qed

subsection \<open>Order of the extraction rules\<close>











subsection \<open>Duplicate queries\<close>












end
